theory Spec2Isabelle
  imports Complex_Main
begin

section \<open>Placeholder sprite atlases (scripts/generate\_placeholder\_sprites.py)\<close>

text \<open>
  The atlas generators draw on a PIL image through an \<open>ImageDraw\<close> handle. The image
  is modelled by its creation parameters and the sequence of drawing calls made on it, in
  the order of the calls. Python tuples of integers (colours) are integer lists, so that
  \<open>color + (255,)\<close> is list append. Saving the file and printing are left out.
\<close>

type_synonym bbox = "int \<times> int \<times> int \<times> int"

datatype draw_op =
    DrawEllipse bbox "int list" "int list option"
  | DrawPolygon "(int \<times> int) list" "int list" "int list option"

record image =
  im_mode :: string
  im_size :: "int \<times> int"
  im_color :: "int list"
  im_ops :: "draw_op list"

definition Image_new :: "string \<Rightarrow> int \<times> int \<Rightarrow> int list \<Rightarrow> image" where
  "Image_new m sz c = \<lparr>im_mode = m, im_size = sz, im_color = c, im_ops = []\<rparr>"

definition draw_ellipse :: "bbox \<Rightarrow> int list \<Rightarrow> int list option \<Rightarrow> image \<Rightarrow> image" where
  "draw_ellipse bb fill outline im = im\<lparr>im_ops := im_ops im @ [DrawEllipse bb fill outline]\<rparr>"

definition draw_polygon ::
  "(int \<times> int) list \<Rightarrow> int list \<Rightarrow> int list option \<Rightarrow> image \<Rightarrow> image" where
  "draw_polygon pts fill outline im = im\<lparr>im_ops := im_ops im @ [DrawPolygon pts fill outline]\<rparr>"

subsection \<open>The creature atlas\<close>

definition animations :: "(string \<times> int list) list" where
  "animations =
     [(''Idle'', [255, 200, 200]),
      (''Walk'', [200, 255, 200]),
      (''Run'', [200, 200, 255]),
      (''Eat'', [255, 255, 200]),
      (''Sleep'', [200, 200, 200]),
      (''Talk'', [255, 200, 255]),
      (''Attack'', [255, 100, 100]),
      (''Death'', [100, 100, 100])]"

text \<open>The body of the inner loop \<open>for frame in range(8)\<close>, for one animation row.\<close>

definition creature_frame :: "string \<Rightarrow> int list \<Rightarrow> int \<Rightarrow> int \<Rightarrow> image \<Rightarrow> image" where
  "creature_frame anim_name color y_offset frame im =
     (let x_offset = frame * 48;
          bb = (x_offset + 8, y_offset + 8, x_offset + 40, y_offset + 40);
          im1 = draw_ellipse bb color (Some [0, 0, 0, 255]) im;
          eye_y = y_offset + 18;
          im2 = draw_ellipse (x_offset + 14, eye_y, x_offset + 18, eye_y + 4) [0, 0, 0, 255] None im1;
          im3 = draw_ellipse (x_offset + 30, eye_y, x_offset + 34, eye_y + 4) [0, 0, 0, 255] None im2
      in if anim_name = ''Walk'' \<and> frame mod 2 = 0
         then draw_ellipse (x_offset + 20, y_offset + 35, x_offset + 28, y_offset + 43)
                color (Some [0, 0, 0, 255]) im3
         else im3)"

text \<open>The body of the outer loop \<open>for anim_idx, (anim_name, color) in enumerate(animations)\<close>.\<close>

definition creature_row :: "nat \<times> string \<times> int list \<Rightarrow> image \<Rightarrow> image" where
  "creature_row entry im =
     (case entry of (anim_idx, anim_name, color) \<Rightarrow>
        (let y_offset = int anim_idx * 48
         in fold (\<lambda>frame. creature_frame anim_name color y_offset (int frame)) [0..<8] im))"

definition create_creature_atlas :: image where
  "create_creature_atlas =
     fold creature_row (enumerate 0 animations) (Image_new ''RGBA'' (384, 384) [0, 0, 0, 0])"

subsection \<open>The terrain atlas\<close>

definition biomes :: "(string \<times> int list) list" where
  "biomes =
     [(''Forest'', [34, 139, 34]),
      (''Desert'', [237, 201, 175]),
      (''Grassland'', [124, 252, 0]),
      (''Tundra'', [230, 230, 250]),
      (''Ocean'', [0, 119, 190])]"

text \<open>
  \<open>tuple(min(255, max(0, c + (variant - 2) * 10)) for c in color)\<close>
\<close>

definition variant_color :: "int list \<Rightarrow> int \<Rightarrow> int list" where
  "variant_color color variant = map (\<lambda>c. min 255 (max 0 (c + (variant - 2) * 10))) color"

text \<open>The body of the inner loop \<open>for variant in range(4)\<close>, for one biome column.\<close>

definition terrain_variant :: "string \<Rightarrow> int list \<Rightarrow> int \<Rightarrow> int \<Rightarrow> image \<Rightarrow> image" where
  "terrain_variant biome_name color x_offset variant im =
     (let y_offset = variant * 32;
          points = [(x_offset + 32, y_offset + 0),
                    (x_offset + 63, y_offset + 16),
                    (x_offset + 32, y_offset + 31),
                    (x_offset + 0, y_offset + 16)];
          im1 = draw_polygon points (variant_color color variant @ [255]) (Some [0, 0, 0, 255]) im
      in if biome_name = ''Forest''
         then draw_ellipse (x_offset + 28, y_offset + 12, x_offset + 36, y_offset + 20)
                [0, 100, 0, 255] None im1
         else im1)"

definition terrain_column :: "nat \<times> string \<times> int list \<Rightarrow> image \<Rightarrow> image" where
  "terrain_column entry im =
     (case entry of (biome_idx, biome_name, color) \<Rightarrow>
        (let x_offset = int biome_idx * 64
         in fold (\<lambda>variant. terrain_variant biome_name color x_offset (int variant)) [0..<4] im))"

definition create_terrain_atlas :: image where
  "create_terrain_atlas =
     fold terrain_column (enumerate 0 biomes) (Image_new ''RGBA'' (320, 128) [0, 0, 0, 0])"

subsection \<open>Cells of the grid\<close>







fun op_fill :: "draw_op \<Rightarrow> int list" where
  "op_fill (DrawEllipse bb f ol) = f"
| "op_fill (DrawPolygon pts f ol) = f"


section \<open>The isometric mockup scene (docs/implementation/cartoon\_isometric\_mockup.py)\<close>

text \<open>
  The mockup is a module-level script that issues drawing calls on one matplotlib axes.
  Python floats are modelled by the reals (exact arithmetic, no rounding). An artist keeps
  its geometry, its face or line colour and its text; line widths, edge colours, alpha and
  fonts are dropped. Glyphs outside ASCII are written by name. The figure set-up, the
  layout call, saving and printing are left out. The draw sequence is the order in which
  the script hands artists to the axes; the z-order matplotlib applies when it renders
  belongs to the drawing surface and is not modelled.
\<close>

datatype artist =
    Polygon "(real \<times> real) list" string
  | Circle "real \<times> real" real string
  | Ellipse "real \<times> real" real real string
  | FancyBboxPatch "real \<times> real" real real string
  | Rectangle "real \<times> real" real real string
  | Arc "real \<times> real" real real real real
  | Line2D "real list" "real list" string
  | Text "real \<times> real" string
  | AxesImage "real list"

text \<open>
  The state of the script: the state of numpy's global random generator, and the artists
  added to the axes so far. The artists are kept in the order of the calls that added them,
  grouped by the call site that issued them: one group for each call of a shape generator
  (labelled with the kind of entity and the world point it was called with) and one for
  each module-level block (labelled with its kind and the screen point it is anchored to).
  The draw sequence is the concatenation of the groups.
\<close>

datatype kind =
  Background | Tile | Tree | Creature | Resource | Weather | UIElement | Particle | Indicator | Title

type_synonym label = "kind \<times> real \<times> real"

type_synonym rng = "nat \<Rightarrow> real"

record scene =
  rng :: rng
  drawn :: "(label \<times> artist list) list"

definition add_group :: "label \<Rightarrow> artist list \<Rightarrow> scene \<Rightarrow> scene" where
  "add_group l arts st = st\<lparr>drawn := drawn st @ [(l, arts)]\<rparr>"

definition draw_sequence :: "scene \<Rightarrow> artist list" where
  "draw_sequence st = concat (map snd (drawn st))"

definition entity_order :: "scene \<Rightarrow> label list" where
  "entity_order st = map fst (drawn st)"

definition kinds :: "scene \<Rightarrow> kind list" where
  "kinds st = map (\<lambda>g. fst (fst g)) (drawn st)"

text \<open>
  numpy's generator is a library outside the repository. Its state is modelled by the
  stream of uniform variates it is going to deliver: \<open>np.random.random()\<close> returns the
  next one (in \<open>[0, 1)\<close>), \<open>np.random.randint(low, high)\<close> scales the next one to an
  integer in \<open>[low, high)\<close>, and both advance the stream.
\<close>

definition np_random :: "rng \<Rightarrow> real \<times> rng" where
  "np_random g = (frac (g 0), \<lambda>n. g (Suc n))"

definition np_randint :: "int \<Rightarrow> int \<Rightarrow> rng \<Rightarrow> int \<times> rng" where
  "np_randint low high g =
     (low + \<lfloor>frac (g 0) * real_of_int (high - low)\<rfloor>, \<lambda>n. g (Suc n))"

text \<open>\<open>range(start, stop, step)\<close> for a positive step.\<close>

definition py_range :: "int \<Rightarrow> int \<Rightarrow> int \<Rightarrow> int list" where
  "py_range start stop step =
     map (\<lambda>k. start + int k * step) [0..<nat ((stop - start + step - 1) div step)]"

subsection \<open>Projection\<close>

definition world_to_iso :: "real \<Rightarrow> real \<Rightarrow> real \<times> real" where
  "world_to_iso x y =
     (let iso_x = (x - y) * 0.5;
          iso_y = (x + y) * 0.25
      in (iso_x + 800, iso_y + 200))"

subsection \<open>Shape generators\<close>

text \<open>
  Each shape generator of the source is given in two parts: \<open>*_artists\<close> is the body of
  the source function, computing the artists it adds (in the order of its \<open>add_patch\<close>,
  \<open>add_line\<close>, \<open>plot\<close> and \<open>text\<close> calls) and the state the global generator is left
  in; \<open>draw_*\<close> is the function as the script calls it, reading the generator from the
  global state and adding the artists to the axes.
\<close>

text \<open>The loop \<open>for i in range(3)\<close> of grass blades; the body does not use \<open>i\<close>.\<close>

fun grass_blades :: "nat \<Rightarrow> real \<Rightarrow> real \<Rightarrow> rng \<Rightarrow> artist list \<times> rng" where
  "grass_blades 0 ix iy g = ([], g)"
| "grass_blades (Suc n) ix iy g =
     (let (offset_x, g1) = np_randint (-10) 10 g;
          (offset_y, g2) = np_randint (-5) 5 g1;
          grass = Line2D [ix + real_of_int offset_x, ix + real_of_int offset_x]
                    [iy + real_of_int offset_y + 16, iy + real_of_int offset_y + 20] ''#2d5016'';
          (rest, g3) = grass_blades n ix iy g2
      in (grass # rest, g3))"

text \<open>The loop \<open>for i in range(5)\<close> of sand dots.\<close>

fun sand_dots :: "nat \<Rightarrow> real \<Rightarrow> real \<Rightarrow> rng \<Rightarrow> artist list \<times> rng" where
  "sand_dots 0 ix iy g = ([], g)"
| "sand_dots (Suc n) ix iy g =
     (let (dx, g1) = np_randint (-15) 15 g;
          (dy, g2) = np_randint (-5) 5 g1;
          dot = Circle (ix + real_of_int dx, iy + real_of_int dy + 16) 1 ''#d4a574'';
          (rest, g3) = sand_dots n ix iy g2
      in (dot # rest, g3))"

definition tile_artists :: "real \<Rightarrow> real \<Rightarrow> string \<Rightarrow> string \<Rightarrow> rng \<Rightarrow> artist list \<times> rng" where
  "tile_artists x y color biome_type g =
     (let (ix, iy) = world_to_iso x y;
          tile = Polygon [(ix, iy), (ix + 32, iy + 16), (ix, iy + 32), (ix - 32, iy + 16)] color;
          (details, g') =
            (if biome_type = ''grass'' then grass_blades 3 ix iy g
             else if biome_type = ''desert'' then sand_dots 5 ix iy g
             else ([], g))
      in (tile # details, g'))"

definition draw_iso_tile :: "real \<Rightarrow> real \<Rightarrow> string \<Rightarrow> string \<Rightarrow> scene \<Rightarrow> scene" where
  "draw_iso_tile x y color biome_type st =
     (let (arts, g') = tile_artists x y color biome_type (rng st)
      in add_group (Tile, x, y) arts (st\<lparr>rng := g'\<rparr>))"

definition tree_artists :: "real \<Rightarrow> real \<Rightarrow> artist list" where
  "tree_artists x y =
     (let (ix, iy) = world_to_iso x y;
          trunk = FancyBboxPatch (ix - 8, iy) 16 40 ''#654321'';
          foliage = map (\<lambda>(size, offset_y). Circle (ix, iy + offset_y) size ''#2d5016'')
                      [(40, 40), (35, 55), (25, 65)]
      in trunk # foliage)"

definition draw_tree :: "real \<Rightarrow> real \<Rightarrow> scene \<Rightarrow> scene" where
  "draw_tree x y st = add_group (Tree, x, y) (tree_artists x y) st"

text \<open>The loop \<open>for i in range(3)\<close> of spots.\<close>

fun spots :: "nat \<Rightarrow> real \<Rightarrow> real \<Rightarrow> rng \<Rightarrow> artist list \<times> rng" where
  "spots 0 ix iy g = ([], g)"
| "spots (Suc n) ix iy g =
     (let (dx, g1) = np_randint (-15) 15 g;
          spot_x = ix + real_of_int dx;
          (dy, g2) = np_randint 10 30 g1;
          spot_y = iy + real_of_int dy;
          spot = Circle (spot_x, spot_y) 3 ''#2a2a2a'';
          (rest, g3) = spots n ix iy g2
      in (spot # rest, g3))"

text \<open>
  \<open>draw_creature\<close> adds its artists in the order of its \<open>add_patch\<close> and \<open>text\<close>
  calls. The two eyes are recoloured by \<open>set_facecolor\<close> after they were added when the
  action is sleeping; the artists below carry the colour they end with. The returned
  screen point is not used by any caller and is left out.
\<close>

definition creature_artists ::
  "real \<Rightarrow> real \<Rightarrow> string \<Rightarrow> string \<Rightarrow> string option \<Rightarrow> rng \<Rightarrow> artist list \<times> rng" where
  "creature_artists x y species emotion action g =
     (let (ix, iy) = world_to_iso x y;
          shadow = Ellipse (ix, iy - 5) 40 20 ''black'';
          (body_color, size) =
            (if species = ''herbivore'' then (''#7cb342'', 30::real)
             else if species = ''carnivore'' then (''#e74c3c'', 35)
             else (''#8b6914'', 32));
          body = Circle (ix, iy + 20) size body_color;
          head = Circle (ix, iy + 50) (size * 0.8) body_color;
          eye_size = size * 0.32;
          eye_color = (if action = Some ''sleeping'' then body_color else ''white'');
          left_eye = Circle (ix - 10, iy + 52) eye_size eye_color;
          right_eye = Circle (ix + 10, iy + 52) eye_size eye_color;
          pupil_y =
            (if emotion = ''happy'' then iy + 52
             else if emotion = ''scared'' then iy + 50
             else if emotion = ''sad'' then iy + 49
             else iy + 52);
          sparkles =
            (if emotion = ''happy''
             then [Circle (ix - 10, iy + 55) 2 ''white'', Circle (ix + 10, iy + 55) 2 ''white'']
             else []);
          left_pupil = Circle (ix - 10, pupil_y) (eye_size * 0.5) ''black'';
          right_pupil = Circle (ix + 10, pupil_y) (eye_size * 0.5) ''black'';
          features =
            (if emotion = ''happy''
             then [Arc (ix, iy + 45) 20 15 200 340,
                   Circle (ix - 20, iy + 45) 5 ''#ff6b6b'', Circle (ix + 20, iy + 45) 5 ''#ff6b6b'']
             else if emotion = ''sad''
             then [Arc (ix, iy + 40) 20 15 20 160, Ellipse (ix - 15, iy + 45) 3 6 ''#4fc3f7'']
             else if emotion = ''angry''
             then [Line2D [ix - 15, ix - 5] [iy + 60, iy + 58] ''#2a2a2a'',
                   Line2D [ix + 5, ix + 15] [iy + 58, iy + 60] ''#2a2a2a'']
             else []);
          additions =
            (if action = Some ''eating'' then [Circle (ix, iy + 40) 5 ''#e74c3c'']
             else if action = Some ''sleeping''
             then [Text (ix + 30, iy + 70) ''Z'', Text (ix + 40, iy + 80) ''z'',
                   Text (ix + 48, iy + 88) ''z'']
             else if action = Some ''talking''
             then [FancyBboxPatch (ix + 40, iy + 60) 80 40 ''white'',
                   Polygon [(ix + 40, iy + 65), (ix + 30, iy + 55), (ix + 45, iy + 60)] ''white'',
                   Text (ix + 65, iy + 75) ''red heart'',
                   Text (ix + 85, iy + 75) ''smiling face'']
             else []);
          (u, g1) = np_random g;
          (variation, g') = (if u > 0.5 then spots 3 ix iy g1 else ([], g1))
      in ([shadow, body, head, left_eye, right_eye] @ sparkles @ [left_pupil, right_pupil]
            @ features @ additions @ variation, g'))"

definition draw_creature ::
  "real \<Rightarrow> real \<Rightarrow> string \<Rightarrow> string \<Rightarrow> string option \<Rightarrow> scene \<Rightarrow> scene" where
  "draw_creature x y species emotion action st =
     (let (arts, g') = creature_artists x y species emotion action (rng st)
      in add_group (Creature, x, y) arts (st\<lparr>rng := g'\<rparr>))"

text \<open>The loop \<open>for i in range(5)\<close> of berries.\<close>

fun berries :: "nat \<Rightarrow> real \<Rightarrow> real \<Rightarrow> rng \<Rightarrow> artist list \<times> rng" where
  "berries 0 ix iy g = ([], g)"
| "berries (Suc n) ix iy g =
     (let (dx, g1) = np_randint (-10) 10 g;
          berry_x = ix + real_of_int dx;
          (dy, g2) = np_randint 5 15 g1;
          berry_y = iy + real_of_int dy;
          berry = Circle (berry_x, berry_y) 3 ''#e74c3c'';
          (rest, g3) = berries n ix iy g2
      in (berry # rest, g3))"

definition resource_artists :: "real \<Rightarrow> real \<Rightarrow> string \<Rightarrow> rng \<Rightarrow> artist list \<times> rng" where
  "resource_artists x y resource_type g =
     (let (ix, iy) = world_to_iso x y
      in if resource_type = ''berries''
         then (let bush = Circle (ix, iy + 10) 15 ''#2d5016'';
                   (bs, g') = berries 5 ix iy g
               in (bush # bs, g'))
         else if resource_type = ''water''
         then ([Ellipse (ix, iy) 40 20 ''#4fc3f7'', Ellipse (ix, iy) 50 25 ''none''], g)
         else if resource_type = ''cactus''
         then (FancyBboxPatch (ix - 10, iy) 20 40 ''#2d5016'' #
               concat (map (\<lambda>i. let spine_y = iy + real_of_int i * 5
                                 in [Line2D [ix - 12, ix - 15] [spine_y, spine_y] ''k'',
                                     Line2D [ix + 12, ix + 15] [spine_y, spine_y] ''k''])
                        (py_range 0 8 1)), g)
         else ([], g))"

definition draw_resource :: "real \<Rightarrow> real \<Rightarrow> string \<Rightarrow> scene \<Rightarrow> scene" where
  "draw_resource x y resource_type st =
     (let (arts, g') = resource_artists x y resource_type (rng st)
      in add_group (Resource, x, y) arts (st\<lparr>rng := g'\<rparr>))"

subsection \<open>The script\<close>

definition background :: "scene \<Rightarrow> scene" where
  "background st = add_group (Background, 0, 0) [AxesImage [0, 1600, 0, 1000]] st"

text \<open>The three nested tile loops, forest, desert and the transition zone.\<close>

definition forest_tiles :: "scene \<Rightarrow> scene" where
  "forest_tiles st =
     fold (\<lambda>x. fold (\<lambda>y. draw_iso_tile (real_of_int x) (real_of_int y)
                           (if (x + y) mod 128 = 0 then ''#3a7d44'' else ''#4a8b54'') ''grass'')
                  (py_range 100 600 64))
       (py_range 100 600 64) st"

definition desert_tiles :: "scene \<Rightarrow> scene" where
  "desert_tiles st =
     fold (\<lambda>x. fold (\<lambda>y. draw_iso_tile (real_of_int x) (real_of_int y)
                           (if (x + y) mod 128 = 0 then ''#f4d03f'' else ''#fad643'') ''desert'')
                  (py_range 100 600 64))
       (py_range 700 1200 64) st"

definition transition_tiles :: "scene \<Rightarrow> scene" where
  "transition_tiles st =
     fold (\<lambda>x. fold (\<lambda>y. draw_iso_tile (real_of_int x) (real_of_int y) ''#8b9556'' ''grass'')
                  (py_range 100 600 64))
       (py_range 600 700 64) st"

definition tree_positions :: "(real \<times> real) list" where
  "tree_positions = [(200, 200), (350, 150), (450, 300), (250, 400)]"

definition place_trees :: "(real \<times> real) list \<Rightarrow> scene \<Rightarrow> scene" where
  "place_trees ps st = fold (\<lambda>pos. draw_tree (fst pos) (snd pos)) ps st"

type_synonym creature = "real \<times> real \<times> string \<times> string \<times> string option"

definition creatures :: "creature list" where
  "creatures =
     [(300, 350, ''herbivore'', ''happy'', Some ''eating''),
      (400, 400, ''herbivore'', ''happy'', Some ''talking''),
      (500, 250, ''carnivore'', ''angry'', None),
      (150, 450, ''omnivore'', ''sad'', None),
      (350, 500, ''herbivore'', ''happy'', Some ''sleeping''),
      (900, 300, ''herbivore'', ''scared'', None),
      (1000, 350, ''carnivore'', ''happy'', None)]"

text \<open>The loop \<open>for x, y, species, emotion, action in creatures\<close>.\<close>

definition place_creatures :: "creature list \<Rightarrow> scene \<Rightarrow> scene" where
  "place_creatures cs st =
     fold (\<lambda>(x, y, species, emotion, action). draw_creature x y species emotion action) cs st"

definition place_resources :: "scene \<Rightarrow> scene" where
  "place_resources st =
     draw_resource 950 400 ''cactus''
       (draw_resource 400 200 ''water''
          (draw_resource 250 300 ''berries'' st))"

text \<open>The loop \<open>for i in range(20)\<close> of rain drops, placed directly in screen space.\<close>

fun rain :: "nat \<Rightarrow> scene \<Rightarrow> scene" where
  "rain 0 st = st"
| "rain (Suc n) st =
     (let (rain_x, g1) = np_randint 100 600 (rng st);
          (rain_y, g2) = np_randint 600 900 g1;
          drop = Line2D [real_of_int rain_x, real_of_int rain_x - 5]
                   [real_of_int rain_y, real_of_int rain_y - 20] ''#4fc3f7''
      in rain n (add_group (Weather, real_of_int rain_x, real_of_int rain_y) [drop]
                   (st\<lparr>rng := g2\<rparr>)))"

definition health_bar :: "scene \<Rightarrow> scene" where
  "health_bar st =
     (let (creature_x, creature_y) = world_to_iso 400 400;
          health_bg = FancyBboxPatch (creature_x - 20, creature_y + 80) 40 6 ''#e74c3c'';
          health_fg = FancyBboxPatch (creature_x - 20, creature_y + 80) 30 6 ''#4caf50''
      in add_group (UIElement, creature_x - 20, creature_y + 80) [health_bg, health_fg] st)"

definition need_icons :: "scene \<Rightarrow> scene" where
  "need_icons st =
     (let (creature_x, creature_y) = world_to_iso 400 400;
          hunger_icon = Circle (creature_x - 30, creature_y + 70) 8 ''#ff9800''
      in add_group (UIElement, creature_x - 30, creature_y + 70)
           [hunger_icon, Text (creature_x - 30, creature_y + 70) ''meat on bone''] st)"

definition particle_effects :: "scene \<Rightarrow> scene" where
  "particle_effects st =
     (let (heart_x, heart_y) = world_to_iso 400 400
      in add_group (Particle, heart_x, heart_y)
           (map (\<lambda>i. let offset = real_of_int i * 10
                      in Text (heart_x + 10, heart_y + 90 + offset) ''red heart'')
              (py_range 0 3 1))
           st)"

definition sun :: "scene \<Rightarrow> scene" where
  "sun st =
     add_group (Indicator, 1400, 850)
       (Circle (1400, 850) 50 ''#ffd54f'' #
        map (\<lambda>angle. let rad = real_of_int angle * pi / 180;
                         x1 = 1400 + 60 * cos rad; y1 = 850 + 60 * sin rad;
                         x2 = 1400 + 80 * cos rad; y2 = 850 + 80 * sin rad
                     in Line2D [x1, x2] [y1, y2] ''#ffa000'')
          (py_range 0 360 45))
       st"

definition ui_panel :: "scene \<Rightarrow> scene" where
  "ui_panel st =
     add_group (UIElement, 1200, 50)
       [FancyBboxPatch (1200, 50) 350 200 ''white'',
        Text (1220, 220) ''Selected: Happy Herbivore'',
        Text (1220, 190) ''Age: 12 days'',
        Text (1220, 170) ''Health: 75%'',
        Text (1220, 150) ''Hunger: 30%'',
        Text (1220, 130) ''Thirst: 45%'',
        Text (1220, 110) ''Energy: 80%'',
        Text (1220, 90) ''Genetics: Fast, Social'',
        Text (1220, 70) ''Current: Socializing'']
       st"

definition title :: "scene \<Rightarrow> scene" where
  "title st =
     add_group (Title, 800, 950)
       [Text (800, 950) ''Creature Evolution Sim - Cartoon Isometric View''] st"

definition minimap :: "scene \<Rightarrow> scene" where
  "minimap st =
     add_group (UIElement, 1400, 700)
       [FancyBboxPatch (1400, 700) 150 100 ''#f5f5f5'',
        Rectangle (1410, 750) 60 40 ''#4a8b54'',
        Rectangle (1480, 750) 60 40 ''#fad643'',
        Rectangle (1450, 760) 50 20 ''none'']
       st"

text \<open>The part of the script that places the world: everything before the UI elements.\<close>

definition world_pass :: "scene \<Rightarrow> scene" where
  "world_pass st =
     rain 20
       (place_resources
          (place_creatures creatures
             (place_trees tree_positions
                (transition_tiles (desert_tiles (forest_tiles (background st)))))))"

text \<open>The whole script, started with the generator in state \<open>g\<close>.\<close>

definition mockup :: "rng \<Rightarrow> scene" where
  "mockup g =
     minimap (title (ui_panel (sun (particle_effects (need_icons (health_bar
       (world_pass \<lparr>rng = g, drawn = []\<rparr>)))))))"

text \<open>The artists a step of the script adds to the draw sequence when run from \<open>st\<close>.\<close>

definition emitted :: "(scene \<Rightarrow> scene) \<Rightarrow> scene \<Rightarrow> artist list" where
  "emitted f st = concat (map snd (drop (length (drawn st)) (drawn (f st))))"

text \<open>The kinds drawn by the four shape generators and by the rain loop.\<close>

definition shape_generated :: "kind \<Rightarrow> bool" where
  "shape_generated k = (k = Tile \<or> k = Tree \<or> k = Creature \<or> k = Resource \<or> k = Weather)"

text \<open>The depth key of the specification.\<close>

definition depth_key :: "label \<Rightarrow> real" where
  "depth_key l = (case l of (k, x, y) \<Rightarrow> x + y)"

section \<open>Drawing calls stay in their cell and on the canvas\<close>

lemma fold_im_size:
  assumes "\<And>x im. im_size (f x im) = im_size im"
  shows "im_size (fold f xs im) = im_size im"
  using assms by (induction xs arbitrary: im) simp_all

lemma fold_im_ops_all:
  assumes "\<And>x im. x \<in> set xs \<Longrightarrow> list_all P (im_ops im) \<Longrightarrow> list_all P (im_ops (f x im))"
    and "list_all P (im_ops im)"
  shows "list_all P (im_ops (fold f xs im))"
  using assms by (induction xs arbitrary: im) simp_all

lemma creature_frame_size: "im_size (creature_frame n c y f im) = im_size im"
  by (simp add: creature_frame_def draw_ellipse_def Let_def)

lemma creature_row_size: "im_size (creature_row e im) = im_size im"
  by (cases e) (simp add: creature_row_def Let_def fold_im_size creature_frame_size)

lemma terrain_variant_size: "im_size (terrain_variant n c x v im) = im_size im"
  by (simp add: terrain_variant_def draw_ellipse_def draw_polygon_def Let_def)

lemma terrain_column_size: "im_size (terrain_column e im) = im_size im"
  by (cases e) (simp add: terrain_column_def Let_def fold_im_size terrain_variant_size)

lemma creature_atlas_size: "im_size create_creature_atlas = (384, 384)"
  by (simp add: create_creature_atlas_def fold_im_size creature_row_size Image_new_def)

lemma terrain_atlas_size: "im_size create_terrain_atlas = (320, 128)"
  by (simp add: create_terrain_atlas_def fold_im_size terrain_column_size Image_new_def)












lemma length_animations: "length animations = 8" by (simp add: animations_def)
lemma length_biomes: "length biomes = 5" by (simp add: biomes_def)









lemma terrain_variant_fills:
  assumes "list_all (\<lambda>d. list_all (\<lambda>c. 0 \<le> c \<and> c \<le> 255) (op_fill d)) (im_ops im)"
  shows "list_all (\<lambda>d. list_all (\<lambda>c. 0 \<le> c \<and> c \<le> 255) (op_fill d))
           (im_ops (terrain_variant n c x v im))"
  using assms
  by (simp add: terrain_variant_def draw_polygon_def draw_ellipse_def Let_def variant_color_def
      list_all_iff)

lemma terrain_column_fills:
  assumes "list_all (\<lambda>d. list_all (\<lambda>c. 0 \<le> c \<and> c \<le> 255) (op_fill d)) (im_ops im)"
  shows "list_all (\<lambda>d. list_all (\<lambda>c. 0 \<le> c \<and> c \<le> 255) (op_fill d))
           (im_ops (terrain_column e im))"
proof -
  obtain b n c where e: "e = (b, n, c)" by (cases e)
  show ?thesis unfolding e terrain_column_def prod.case Let_def
    by (rule fold_im_ops_all[OF _ assms]) (rule terrain_variant_fills)
qed

lemma terrain_atlas_fills:
  "list_all (\<lambda>d. list_all (\<lambda>c. 0 \<le> c \<and> c \<le> 255) (op_fill d)) (im_ops create_terrain_atlas)"
  unfolding create_terrain_atlas_def
  by (rule fold_im_ops_all) (simp_all add: terrain_column_fills Image_new_def)

section \<open>The order of the script's draws\<close>

lemma py_range_100_600: "py_range 100 600 64 = [100, 164, 228, 292, 356, 420, 484, 548]"
  by code_simp

lemma drawn_add_group [simp]: "drawn (add_group l a st) = drawn st @ [(l, a)]"
  by (simp add: add_group_def)

lemma rng_add_group [simp]: "rng (add_group l a st) = rng st"
  by (simp add: add_group_def)

lemma draw_iso_tile_drawn:
  "\<exists>arts. drawn (draw_iso_tile x y c b st) = drawn st @ [((Tile, x, y), arts)]"
  by (simp add: draw_iso_tile_def Let_def split: prod.splits)

lemma draw_tree_drawn:
  "\<exists>arts. drawn (draw_tree x y st) = drawn st @ [((Tree, x, y), arts)]"
  by (simp add: draw_tree_def)

lemma draw_creature_drawn:
  "\<exists>arts. drawn (draw_creature x y s e a st) = drawn st @ [((Creature, x, y), arts)]"
  by (simp add: draw_creature_def Let_def split: prod.splits)

lemma draw_resource_drawn:
  "\<exists>arts. drawn (draw_resource x y t st) = drawn st @ [((Resource, x, y), arts)]"
  by (simp add: draw_resource_def Let_def split: prod.splits)

lemma entity_order_fold:
  assumes "\<And>x st. entity_order (f x st) = entity_order st @ [lab x]"
  shows "entity_order (fold f xs st) = entity_order st @ map lab xs"
  using assms by (induction xs arbitrary: st) simp_all

lemma entity_order_fold2:
  assumes "\<And>x y st. entity_order (f x y st) = entity_order st @ [lab x y]"
  shows "entity_order (fold (\<lambda>x. fold (f x) ys) xs st)
         = entity_order st @ concat (map (\<lambda>x. map (lab x) ys) xs)"
proof (induction xs arbitrary: st)
  case Nil
  show ?case by simp
next
  case (Cons x xs)
  show ?case by (simp add: Cons.IH entity_order_fold[of "f x" "lab x", OF assms])
qed

lemma draw_iso_tile_order:
  "entity_order (draw_iso_tile x y c b st) = entity_order st @ [(Tile, x, y)]"
  using draw_iso_tile_drawn[of x y c b st] by (auto simp: entity_order_def)

lemma draw_tree_order:
  "entity_order (draw_tree x y st) = entity_order st @ [(Tree, x, y)]"
  using draw_tree_drawn[of x y st] by (auto simp: entity_order_def)

lemma draw_creature_order:
  "entity_order (draw_creature x y s e a st) = entity_order st @ [(Creature, x, y)]"
  using draw_creature_drawn[of x y s e a st] by (auto simp: entity_order_def)

lemma draw_resource_order:
  "entity_order (draw_resource x y t st) = entity_order st @ [(Resource, x, y)]"
  using draw_resource_drawn[of x y t st] by (auto simp: entity_order_def)

lemma place_creatures_order:
  "entity_order (place_creatures cs st)
   = entity_order st @ map (\<lambda>(x, y, species, emotion, action). (Creature, x, y)) cs"
  unfolding place_creatures_def
  by (rule entity_order_fold) (simp add: draw_creature_order split: prod.splits)

lemma place_trees_order:
  "entity_order (place_trees ps st) = entity_order st @ map (\<lambda>pos. (Tree, fst pos, snd pos)) ps"
  unfolding place_trees_def
  by (rule entity_order_fold) (simp add: draw_tree_order)

lemma forest_tiles_order:
  "entity_order (forest_tiles st)
   = entity_order st @ concat (map (\<lambda>x. map (\<lambda>y. (Tile, real_of_int x, real_of_int y))
                                  (py_range 100 600 64)) (py_range 100 600 64))"
  unfolding forest_tiles_def
  by (rule entity_order_fold2) (simp add: draw_iso_tile_order)

lemma desert_tiles_order:
  "entity_order (desert_tiles st)
   = entity_order st @ concat (map (\<lambda>x. map (\<lambda>y. (Tile, real_of_int x, real_of_int y))
                                  (py_range 100 600 64)) (py_range 700 1200 64))"
  unfolding desert_tiles_def
  by (rule entity_order_fold2) (simp add: draw_iso_tile_order)

lemma transition_tiles_order:
  "entity_order (transition_tiles st)
   = entity_order st @ concat (map (\<lambda>x. map (\<lambda>y. (Tile, real_of_int x, real_of_int y))
                                  (py_range 100 600 64)) (py_range 600 700 64))"
  unfolding transition_tiles_def
  by (rule entity_order_fold2) (simp add: draw_iso_tile_order)

lemma kinds_entity_order: "kinds st = map fst (entity_order st)"
  by (simp add: kinds_def entity_order_def)

lemma kinds_add_group [simp]: "kinds (add_group l a st) = kinds st @ [fst l]"
  by (simp add: kinds_def)

lemma kinds_rng_update [simp]: "kinds (st\<lparr>rng := g\<rparr>) = kinds st"
  by (simp add: kinds_def)

lemma rain_kinds: "kinds (rain n st) = kinds st @ replicate n Weather"
proof (induction n arbitrary: st)
  case 0
  show ?case by simp
next
  case (Suc n)
  show ?case
    by (simp add: Let_def Suc.IH replicate_app_Cons_same split: prod.splits)
qed

lemma py_range_700_1200: "py_range 700 1200 64 = [700, 764, 828, 892, 956, 1020, 1084, 1148]"
  by code_simp

lemma py_range_600_700: "py_range 600 700 64 = [600, 664]"
  by code_simp

lemma world_pass_kinds:
  "kinds (world_pass st) = kinds st @ [Background] @ replicate 144 Tile @ replicate 4 Tree
     @ replicate 7 Creature @ replicate 3 Resource @ replicate 20 Weather"
  apply (simp add: world_pass_def rain_kinds)
  apply (simp add: kinds_entity_order place_resources_def draw_resource_order place_creatures_order
        place_trees_order forest_tiles_order desert_tiles_order transition_tiles_order
         background_def entity_order_def[of "add_group l a st" for l a st])
  apply (simp add: py_range_100_600 py_range_700_1200 py_range_600_700 creatures_def tree_positions_def)
  apply (simp add: entity_order_def numeral_eq_Suc)
  done

lemma mockup_kinds:
  "kinds (mockup g) = [Background] @ replicate 144 Tile @ replicate 4 Tree
     @ replicate 7 Creature @ replicate 3 Resource @ replicate 20 Weather
     @ [UIElement, UIElement, Particle, Indicator, UIElement, Title, UIElement]"
  by (simp add: mockup_def minimap_def title_def ui_panel_def sun_def particle_effects_def
      need_icons_def health_bar_def world_pass_kinds Let_def kinds_def[of "\<lparr>rng = g, drawn = []\<rparr>"]
      split: prod.splits)

lemma mockup_order:
  "entity_order (mockup g)
   = entity_order (world_pass \<lparr>rng = g, drawn = []\<rparr>)
     @ [(UIElement, 780, 480), (UIElement, 770, 470), (Particle, 800, 400), (Indicator, 1400, 850),
        (UIElement, 1200, 50), (Title, 800, 950), (UIElement, 1400, 700)]"
  by (simp add: mockup_def minimap_def title_def ui_panel_def sun_def particle_effects_def
      need_icons_def health_bar_def Let_def entity_order_def world_to_iso_def)

lemma length_world_pass: "length (entity_order (world_pass \<lparr>rng = g, drawn = []\<rparr>)) = 179"
proof -
  have "length (kinds (world_pass \<lparr>rng = g, drawn = []\<rparr>)) = 179"
    by (simp add: world_pass_kinds kinds_def[of "\<lparr>rng = g, drawn = []\<rparr>"])
  then show ?thesis by (simp add: kinds_entity_order)
qed

lemma overlays_last:
  fixes ks :: "kind list"
  assumes ks: "ks = A @ B"
    and A: "UIElement \<notin> set A"
    and B: "\<forall>k\<in>set B. \<not> W k"
    and i: "i < length ks" "ks ! i = UIElement"
    and j: "j < length ks" "W (ks ! j)"
  shows "j < i"
proof -
  have "length A \<le> i"
  proof (rule ccontr)
    assume "\<not> length A \<le> i"
    then have "ks ! i \<in> set A" by (simp add: ks nth_append)
    with i(2) A show False by simp
  qed
  moreover have "j < length A"
  proof (rule ccontr)
    assume n: "\<not> j < length A"
    with j(1) have "ks ! j \<in> set B" by (simp add: ks nth_append)
    with j(2) B show False by blast
  qed
  ultimately show ?thesis by simp
qed

section \<open>What the shape generators depend on\<close>

lemma emitted_append:
  "drawn (f st) = drawn st @ [(l, arts)] \<Longrightarrow> emitted f st = arts"
  by (simp add: emitted_def)








section \<open>Claims about the atlas grid\<close>



text \<open>
  C4 (as amended). The creature canvas is 8 frames times 48 wide and as many animation rows
  times 48 high; the terrain canvas is as many biomes times 64 wide and 4 variants times
  32 high (categories along the width). The size is given when the image is created,
  before any drawing call, and no drawing call changes it.
\<close>

theorem canvas_size_of_atlases:
  "im_size create_creature_atlas = (8 * 48, int (length animations) * 48) \<and>
   im_size create_terrain_atlas = (int (length biomes) * 64, 4 * 32) \<and>
   im_ops (Image_new m sz bg) = [] \<and> im_size (Image_new m sz bg) = sz \<and>
   im_size (creature_row e im) = im_size im \<and>
   im_size (terrain_column e im) = im_size im"
  by (simp add: creature_atlas_size terrain_atlas_size length_animations length_biomes
      creature_row_size terrain_column_size Image_new_def)

text \<open>
  The terrain canvas is not variants times cell width by categories times cell height.
\<close>

theorem terrain_canvas_size_counterexample:
  "im_size create_terrain_atlas \<noteq> (4 * 64, int (length biomes) * 32)"
  by (simp add: terrain_atlas_size)





text \<open>
  C10. Every component of the per-variant colour \<open>min(255, max(0, c + (v - 2) * 10))\<close>
  lies in 0..255, for every base colour and every variant index; so does every component
  of the fill \<open>variant_color + (255,)\<close> handed to \<open>draw.polygon\<close>, and every fill
  colour of the finished terrain atlas.
\<close>

theorem variant_color_byte_range:
  "list_all (\<lambda>c. 0 \<le> c \<and> c \<le> 255) (variant_color color variant) \<and>
   list_all (\<lambda>c. 0 \<le> c \<and> c \<le> 255) (variant_color color variant @ [255]) \<and>
   list_all (\<lambda>d. list_all (\<lambda>c. 0 \<le> c \<and> c \<le> 255) (op_fill d)) (im_ops create_terrain_atlas)"
  by (simp add: terrain_atlas_fills) (simp add: variant_color_def list_all_iff)

section \<open>Claims about the scene\<close>



text \<open>
  C3 (as amended). The script does not sort: entities are drawn in manifest insertion
  order whatever their depth keys. The creatures are drawn in the order of the list, the
  trees in the order of their list, the tiles in the order of the nested loops (x outer,
  y inner).
\<close>

theorem draw_order_is_manifest_order:
  "entity_order (place_creatures cs st)
     = entity_order st @ map (\<lambda>(x, y, species, emotion, action). (Creature, x, y)) cs \<and>
   entity_order (place_trees ps st)
     = entity_order st @ map (\<lambda>pos. (Tree, fst pos, snd pos)) ps \<and>
   entity_order (forest_tiles st)
     = entity_order st @ concat (map (\<lambda>x. map (\<lambda>y. (Tile, real_of_int x, real_of_int y))
                                    (py_range 100 600 64)) (py_range 100 600 64)) \<and>
   entity_order (place_creatures creatures st)
     = entity_order st @ [(Creature, 300, 350), (Creature, 400, 400), (Creature, 500, 250),
         (Creature, 150, 450), (Creature, 350, 500), (Creature, 900, 300), (Creature, 1000, 350)]"
  by (simp add: place_creatures_order place_trees_order forest_tiles_order creatures_def)

text \<open>
  The creature at (400, 400), depth key 800, is drawn before the creature at (500, 250),
  depth key 750.
\<close>

theorem creatures_not_depth_sorted_counterexample:
  "entity_order (place_creatures creatures \<lparr>rng = \<lambda>n. 0, drawn = []\<rparr>) ! 1 = (Creature, 400, 400) \<and>
   entity_order (place_creatures creatures \<lparr>rng = \<lambda>n. 0, drawn = []\<rparr>) ! 2 = (Creature, 500, 250) \<and>
   depth_key (Creature, 500, 250) < depth_key (Creature, 400, 400) \<and>
   (500, 250, ''carnivore'', ''angry'', None) \<in> set creatures \<and>
   (400, 400, ''herbivore'', ''happy'', Some ''talking'') \<in> set creatures"
  by (simp add: place_creatures_order creatures_def depth_key_def
      entity_order_def[of "\<lparr>rng = \<lambda>n. 0, drawn = []\<rparr>"])

text \<open>
  C7 (as amended). Every UI overlay (health bar, need icon, panel, minimap) is drawn after
  every tile, tree, creature, resource and rain drop, also the two overlays anchored to the
  projected point of the creature at (400, 400), which is drawn second of the creatures.
  The heart particles and the sun are drawn after the health bar and the need icon, and
  before the panel, the title and the minimap.
\<close>

theorem ui_overlays_after_shape_generators:
  "kinds (mockup g) = [Background] @ replicate 144 Tile @ replicate 4 Tree
     @ replicate 7 Creature @ replicate 3 Resource @ replicate 20 Weather
     @ [UIElement, UIElement, Particle, Indicator, UIElement, Title, UIElement] \<and>
   (i < length (kinds (mockup g)) \<and> kinds (mockup g) ! i = UIElement \<and>
    j < length (kinds (mockup g)) \<and> shape_generated (kinds (mockup g) ! j) \<longrightarrow> j < i)"
proof (intro conjI impI)
  show "kinds (mockup g) = [Background] @ replicate 144 Tile @ replicate 4 Tree
     @ replicate 7 Creature @ replicate 3 Resource @ replicate 20 Weather
     @ [UIElement, UIElement, Particle, Indicator, UIElement, Title, UIElement]"
    by (rule mockup_kinds)
next
  assume a: "i < length (kinds (mockup g)) \<and> kinds (mockup g) ! i = UIElement \<and>
    j < length (kinds (mockup g)) \<and> shape_generated (kinds (mockup g) ! j)"
  have ks: "kinds (mockup g) = ([Background] @ replicate 144 Tile @ replicate 4 Tree
     @ replicate 7 Creature @ replicate 3 Resource @ replicate 20 Weather)
     @ [UIElement, UIElement, Particle, Indicator, UIElement, Title, UIElement]"
    by (simp add: mockup_kinds)
  show "j < i"
    by (rule overlays_last[OF ks, where W = shape_generated])
       (use a in \<open>simp_all add: shape_generated_def\<close>)
qed

text \<open>The health bar, group 179, and the creature at (400, 400), group 150.\<close>

theorem ui_overlays_after_shape_generators_witness:
  "(179::nat) < length (kinds (mockup (\<lambda>n. 0))) \<and> kinds (mockup (\<lambda>n. 0)) ! 179 = UIElement \<and>
   (150::nat) < length (kinds (mockup (\<lambda>n. 0))) \<and> shape_generated (kinds (mockup (\<lambda>n. 0)) ! 150) \<and>
   (150::nat) < 179"
proof -
  have ks: "kinds (mockup (\<lambda>n. 0)) = [Background] @ replicate 144 Tile @ replicate 4 Tree
     @ replicate 7 Creature @ replicate 3 Resource @ replicate 20 Weather
     @ [UIElement, UIElement, Particle, Indicator, UIElement, Title, UIElement]"
    using ui_overlays_after_shape_generators[of "\<lambda>n. 0" 179 150] by blast
  show ?thesis unfolding ks by (simp add: nth_append shape_generated_def)
qed

text \<open>
  The heart particles, placed at the projection of the world point (400, 400), are drawn
  after the health bar and the need icon.
\<close>

theorem particles_after_overlay_counterexample:
  "entity_order (mockup (\<lambda>n. 0)) ! 179 = (UIElement, 780, 480) \<and>
   entity_order (mockup (\<lambda>n. 0)) ! 180 = (UIElement, 770, 470) \<and>
   entity_order (mockup (\<lambda>n. 0)) ! 181 = (Particle, 800, 400) \<and>
   world_to_iso 400 400 = (800, 400)"
  by (simp add: mockup_order nth_append length_world_pass world_to_iso_def)




end
